theory Spec2Isabelle
  imports Complex_Main "HOL-Library.Word"
begin

section \<open>Numbers of the source\<close>

text \<open>
  The quantization codec of \<^verbatim>\<open>examples/StructureCompression.ipynb\<close> computes on
  NumPy \<^verbatim>\<open>float64\<close> arrays and stores codes in \<^verbatim>\<open>int32\<close> arrays.

  \<^item> A finite \<^verbatim>\<open>float64\<close> is idealised as a \<^typ>\<open>real\<close>: sums, products and
    quotients of finite values are exact (no rounding error, no overflow to infinity, one
    zero). NumPy does not raise on a division by zero: the quotient is an infinity or NaN,
    and these three values are kept.
  \<^item> An \<^verbatim>\<open>int32\<close> is a \<^typ>\<open>32 word\<close> read with \<^const>\<open>sint\<close>; arithmetic on it wraps.
  \<^item> A Python \<^verbatim>\<open>int\<close> is an \<^typ>\<open>int\<close>. \<^verbatim>\<open>2 ** k\<close> is an \<^verbatim>\<open>int\<close> for \<^verbatim>\<open>k >= 0\<close> and
    a \<^verbatim>\<open>float\<close> otherwise, so the bounds of the code range are Python numbers of
    either kind.
\<close>

datatype npfloat = Fin real | PInf | NInf | NaN

datatype pynum = PyInt int | PyFloat real

datatype error = KeyError string | OverflowError

fun py_real :: "pynum \<Rightarrow> real" where
  "py_real (PyInt k) = of_int k"
| "py_real (PyFloat r) = r"

definition py_pow2 :: "int \<Rightarrow> pynum" where
  \<comment> \<open>\<^verbatim>\<open>2 ** k\<close>\<close>
  "py_pow2 k = (if 0 \<le> k then PyInt (2 ^ nat k) else PyFloat (1 / 2 ^ nat (- k)))"

fun py_sub :: "pynum \<Rightarrow> pynum \<Rightarrow> pynum" where
  "py_sub (PyInt a) (PyInt b) = PyInt (a - b)"
| "py_sub a b = PyFloat (py_real a - py_real b)"

fun py_neg :: "pynum \<Rightarrow> pynum" where
  "py_neg (PyInt a) = PyInt (- a)"
| "py_neg (PyFloat r) = PyFloat (- r)"

text \<open>Array arithmetic on \<^verbatim>\<open>float64\<close>, one element at a time.\<close>

definition np_divide :: "real \<Rightarrow> real \<Rightarrow> npfloat" where
  "np_divide a b =
     (if b \<noteq> 0 then Fin (a / b)
      else if a = 0 then NaN else if 0 < a then PInf else NInf)"

fun np_mul :: "npfloat \<Rightarrow> real \<Rightarrow> npfloat" where
  "np_mul (Fin a) r = Fin (a * r)"
| "np_mul PInf r = (if 0 < r then PInf else if r < 0 then NInf else NaN)"
| "np_mul NInf r = (if 0 < r then NInf else if r < 0 then PInf else NaN)"
| "np_mul NaN r = NaN"

fun np_add :: "npfloat \<Rightarrow> real \<Rightarrow> npfloat" where
  "np_add (Fin a) r = Fin (a + r)"
| "np_add x r = x"

text \<open>
  \<^verbatim>\<open>np.round\<close> rounds to the nearest integer and, as NumPy documents, a value exactly
  halfway between two integers to the even one.
\<close>

definition round_half_even :: "real \<Rightarrow> int" where
  "round_half_even x =
     (let f = \<lfloor>x\<rfloor>; d = x - of_int f
      in if d < 1 / 2 then f else if 1 / 2 < d then f + 1
         else if even f then f else f + 1)"

fun np_round :: "npfloat \<Rightarrow> npfloat" where
  "np_round (Fin x) = Fin (of_int (round_half_even x))"
| "np_round x = x"

text \<open>
  Two steps of the source have no result fixed by the source itself; both are fields of
  a record that every operation takes.

  \<^item> \<^verbatim>\<open>astype(np.int32)\<close> of a value that no \<^verbatim>\<open>int32\<close> represents (beyond the range,
    infinite, NaN) is an undefined conversion of C: the code that comes out depends on
    the processor. \<open>cast_undef\<close> is that code.
  \<^item> \<^verbatim>\<open>arr - k\<close> for an \<^verbatim>\<open>int32\<close> array and a Python \<^verbatim>\<open>int\<close> that does not fit in
    \<^verbatim>\<open>int32\<close> depends on the NumPy release: the array is promoted to a wider type, or the
    operation is rejected with \<^verbatim>\<open>OverflowError\<close> whatever the array holds.
    \<open>wide_sub k\<close> is \<open>None\<close> for the rejection, or the difference as a function of the
    element.
\<close>

record platform =
  cast_undef :: "npfloat \<Rightarrow> 32 word"
  wide_sub :: "int \<Rightarrow> (32 word \<Rightarrow> int) option"

definition fits_int32 :: "int \<Rightarrow> bool" where
  "fits_int32 k \<longleftrightarrow> - (2 ^ 31) \<le> k \<and> k < 2 ^ 31"

definition astype_int32 :: "platform \<Rightarrow> npfloat \<Rightarrow> 32 word" where
  \<comment> \<open>the conversion truncates towards zero\<close>
  "astype_int32 p x =
     (case x of
        Fin r \<Rightarrow>
          (let t = (if 0 \<le> r then \<lfloor>r\<rfloor> else \<lceil>r\<rceil>)
           in if fits_int32 t then word_of_int t else cast_undef p x)
      | _ \<Rightarrow> cast_undef p x)"

text \<open>
  \<^verbatim>\<open>arr - s\<close> for an \<^verbatim>\<open>int32\<close> array and a Python number \<open>s\<close>. With an \<^verbatim>\<open>int\<close> that
  fits in \<^verbatim>\<open>int32\<close> the result is an \<^verbatim>\<open>int32\<close> array and the subtraction wraps; with a
  \<^verbatim>\<open>float\<close> the result is a \<^verbatim>\<open>float64\<close> array.
\<close>

definition sub_scalar :: "platform \<Rightarrow> pynum \<Rightarrow> error + (32 word \<Rightarrow> real)" where
  "sub_scalar p s =
     (case s of
        PyInt k \<Rightarrow>
          if fits_int32 k then Inr (\<lambda>c. of_int (sint (c - word_of_int k)))
          else (case wide_sub p k of
                  None \<Rightarrow> Inl OverflowError
                | Some f \<Rightarrow> Inr (\<lambda>c. of_int (f c)))
      | PyFloat r \<Rightarrow> Inr (\<lambda>c. of_int (sint c) - r))"

section \<open>The quantizer\<close>

text \<open>
  Both functions start with the same block, lines 51-58 and 86-93 of the notebook:
  \<^verbatim>\<open>
  if signed:
      max_int_val = (2 ** (bits - 1)) - 1
      min_int_val = -(2 ** (bits - 1))
  else:
      max_int_val = (2 ** bits) - 1
      min_int_val = 0
  \<close>
\<close>

definition max_int_val :: "int \<Rightarrow> bool \<Rightarrow> pynum" where
  "max_int_val bits signed' =
     (if signed' then py_sub (py_pow2 (bits - 1)) (PyInt 1) else py_sub (py_pow2 bits) (PyInt 1))"

definition min_int_val :: "int \<Rightarrow> bool \<Rightarrow> pynum" where
  "min_int_val bits signed' = (if signed' then py_neg (py_pow2 (bits - 1)) else PyInt 0)"

text \<open>
  \<^verbatim>\<open>discretize_to_bits(arr, bits, max_val, min_val=0, signed=False)\<close> works on every
  element of \<open>arr\<close> alone; \<open>arr\<close> is one element here. \<open>discretize_scaled\<close> is the
  local \<^verbatim>\<open>scaled\<close> (lines 61 and 64), \<open>discretize_to_bits\<close> the result (line 67).
\<close>

definition discretize_scaled :: "real \<Rightarrow> int \<Rightarrow> real \<Rightarrow> real \<Rightarrow> bool \<Rightarrow> npfloat" where
  "discretize_scaled arr bits max_val min_val signed' =
     (let normalized = np_divide (arr - min_val) (max_val - min_val)
      in np_add
           (np_mul normalized (py_real (py_sub (max_int_val bits signed') (min_int_val bits signed'))))
           (py_real (min_int_val bits signed')))"

definition discretize_to_bits ::
  "platform \<Rightarrow> real \<Rightarrow> int \<Rightarrow> real \<Rightarrow> real \<Rightarrow> bool \<Rightarrow> 32 word" where
  "discretize_to_bits p arr bits max_val min_val signed' =
     astype_int32 p (np_round (discretize_scaled arr bits max_val min_val signed'))"

text \<open>
  \<^verbatim>\<open>decode_from_bits(arr, bits, max_val, min_val=0, signed=False)\<close>, for one element
  \<open>arr\<close> of the \<^verbatim>\<open>int32\<close> array. \<open>decode_elem\<close> is lines 96 and 99 after the
  subtraction \<^verbatim>\<open>arr - min_int_val\<close>, which is \<open>sub_scalar\<close>.
\<close>

definition decode_elem :: "real \<Rightarrow> int \<Rightarrow> real \<Rightarrow> real \<Rightarrow> bool \<Rightarrow> npfloat" where
  "decode_elem d bits max_val min_val signed' =
     (let normalized =
            np_divide d (py_real (py_sub (max_int_val bits signed') (min_int_val bits signed')))
      in np_add (np_mul normalized (max_val - min_val)) min_val)"

definition decode_from_bits ::
  "platform \<Rightarrow> 32 word \<Rightarrow> int \<Rightarrow> real \<Rightarrow> real \<Rightarrow> bool \<Rightarrow> error + npfloat" where
  "decode_from_bits p arr bits max_val min_val signed' =
     (case sub_scalar p (min_int_val bits signed') of
        Inl e \<Rightarrow> Inl e
      | Inr f \<Rightarrow> Inr (decode_elem (f arr) bits max_val min_val signed'))"

section \<open>The compressor\<close>

text \<open>
  A quantization configuration is the dictionary that the compressor passes on as keyword
  arguments (\<^verbatim>\<open>**length_config\<close>): \<^verbatim>\<open>bits\<close> and \<^verbatim>\<open>max_val\<close> have no default,
  \<^verbatim>\<open>min_val\<close> defaults to \<^verbatim>\<open>0\<close> and \<^verbatim>\<open>signed\<close> to \<^verbatim>\<open>False\<close>. The source builds it as
  a dictionary literal; no function of the source constructs or checks it.
\<close>

record quant_conf =
  conf_bits :: int
  conf_max_val :: real
  conf_min_val :: "real option"
  conf_signed :: "bool option"

definition kw_min_val :: "quant_conf \<Rightarrow> real" where
  "kw_min_val c = (case conf_min_val c of None \<Rightarrow> 0 | Some m \<Rightarrow> m)"

definition kw_signed :: "quant_conf \<Rightarrow> bool" where
  "kw_signed c = (case conf_signed c of None \<Rightarrow> False | Some b \<Rightarrow> b)"

text \<open>
  The arrays of the compressor have shape \<open>(n, 3)\<close>: a list of rows of three. The
  idealised constants have shape \<open>(3)\<close> and are broadcast over the rows.
\<close>

type_synonym 'a row = "'a \<times> 'a \<times> 'a"

fun map_row :: "('a \<Rightarrow> 'b) \<Rightarrow> 'a row \<Rightarrow> 'b row" where
  "map_row f (a, b, c) = (f a, f b, f c)"

fun sub_row :: "real row \<Rightarrow> real row \<Rightarrow> real row" where
  "sub_row (a, b, c) (x, y, z) = (a - x, b - y, c - z)"

fun add_row :: "npfloat row \<Rightarrow> real row \<Rightarrow> npfloat row" where
  "add_row (a, b, c) (x, y, z) = (np_add a x, np_add b y, np_add c z)"

definition BACKBONE_BOND_LENGTHS :: "real row" where
  "BACKBONE_BOND_LENGTHS = (133 / 100, 146 / 100, 152 / 100)"

definition BACKBONE_ANGLES :: "real row" where
  "BACKBONE_ANGLES = (1095 / 1000, 98 / 100, 120 / 100)"

text \<open>The two quantizer functions on an \<open>(n, 3)\<close> array, called with a configuration.\<close>

definition discretize_rows :: "platform \<Rightarrow> real row list \<Rightarrow> quant_conf \<Rightarrow> 32 word row list" where
  "discretize_rows p arr c =
     map (map_row (\<lambda>x. discretize_to_bits p x (conf_bits c) (conf_max_val c) (kw_min_val c)
                         (kw_signed c))) arr"

definition decode_rows ::
  "platform \<Rightarrow> 32 word row list \<Rightarrow> quant_conf \<Rightarrow> error + npfloat row list" where
  "decode_rows p arr c =
     (case sub_scalar p (min_int_val (conf_bits c) (kw_signed c)) of
        Inl e \<Rightarrow> Inl e
      | Inr f \<Rightarrow>
          Inr (map (map_row (\<lambda>x. decode_elem (f x) (conf_bits c) (conf_max_val c) (kw_min_val c)
                                   (kw_signed c))) arr))"

text \<open>\<^verbatim>\<open>d[k]\<close> on a dictionary.\<close>

definition getitem :: "(string \<rightharpoonup> 'v) \<Rightarrow> string \<Rightarrow> error + 'v" where
  "getitem d k = (case d k of None \<Rightarrow> Inl (KeyError k) | Some v \<Rightarrow> Inr v)"

text \<open>
  \<^verbatim>\<open>Compressor.__init__\<close> stores the dictionary; \<^verbatim>\<open>NaiveCompressor.__init__\<close> calls it
  and does nothing else. Neither has a statement that raises.
\<close>

record Compressor =
  config :: "string \<rightharpoonup> quant_conf"

definition Compressor_init :: "(string \<rightharpoonup> quant_conf) \<Rightarrow> error + Compressor" where
  "Compressor_init config' = Inr \<lparr>config = config'\<rparr>"

definition NaiveCompressor_init :: "(string \<rightharpoonup> quant_conf) \<Rightarrow> error + Compressor" where
  "NaiveCompressor_init config' = Compressor_init config'"

type_synonym internal_coords = "real row list \<times> real row list \<times> real row list"
type_synonym compressed_coords = "32 word row list \<times> 32 word row list \<times> 32 word row list"
type_synonym decoded_coords = "npfloat row list \<times> npfloat row list \<times> npfloat row list"

definition NaiveCompressor_compress ::
  "platform \<Rightarrow> Compressor \<Rightarrow> internal_coords \<Rightarrow> error + compressed_coords" where
  "NaiveCompressor_compress p self internal_coords =
     (case internal_coords of (bond_lengths, bond_angles, dihedrals) \<Rightarrow>
      case getitem (config self) ''lengths'' of Inl e \<Rightarrow> Inl e | Inr length_config \<Rightarrow>
      case getitem (config self) ''angles'' of Inl e \<Rightarrow> Inl e | Inr angle_config \<Rightarrow>
      case getitem (config self) ''dihedrals'' of Inl e \<Rightarrow> Inl e | Inr dihedral_config \<Rightarrow>
        Inr (discretize_rows p (map (\<lambda>r. sub_row r BACKBONE_BOND_LENGTHS) bond_lengths) length_config,
             discretize_rows p (map (\<lambda>r. sub_row r BACKBONE_ANGLES) bond_angles) angle_config,
             discretize_rows p dihedrals dihedral_config))"

text \<open>
  \<^verbatim>\<open>decompress\<close> builds its tuple from left to right: each element looks its key up,
  then decodes.
\<close>

definition NaiveCompressor_decompress ::
  "platform \<Rightarrow> Compressor \<Rightarrow> compressed_coords \<Rightarrow> error + decoded_coords" where
  "NaiveCompressor_decompress p self compressed_internal_coords =
     (case compressed_internal_coords of (c0, c1, c2) \<Rightarrow>
      case getitem (config self) ''lengths'' of Inl e \<Rightarrow> Inl e | Inr lc \<Rightarrow>
      case decode_rows p c0 lc of Inl e \<Rightarrow> Inl e | Inr d0 \<Rightarrow>
      case getitem (config self) ''angles'' of Inl e \<Rightarrow> Inl e | Inr ac \<Rightarrow>
      case decode_rows p c1 ac of Inl e \<Rightarrow> Inl e | Inr d1 \<Rightarrow>
      case getitem (config self) ''dihedrals'' of Inl e \<Rightarrow> Inl e | Inr dc \<Rightarrow>
      case decode_rows p c2 dc of Inl e \<Rightarrow> Inl e | Inr d2 \<Rightarrow>
        Inr (map (\<lambda>r. add_row r BACKBONE_BOND_LENGTHS) d0,
             map (\<lambda>r. add_row r BACKBONE_ANGLES) d1,
             d2))"

text \<open>
  The configuration at the end of the notebook (lines 323-327): 6, 12 and 14 bits for
  the three components of bond lengths, bond angles and dihedrals, 96 bits per residue.
  \<^verbatim>\<open>np.pi\<close> is idealised as \<^term>\<open>pi\<close>.
\<close>

definition twelve_byte_length_config :: quant_conf where
  "twelve_byte_length_config =
     \<lparr>conf_bits = 6, conf_max_val = 4 / 10, conf_min_val = Some (- (5 / 100)),
      conf_signed = Some True\<rparr>"









text \<open>
  One platform, to run the model on concrete inputs: an x86-64 processor, whose
  conversion instructions return \<open>- 2 ^ 31\<close> for an operand that \<^verbatim>\<open>int32\<close> cannot
  represent, under a NumPy release that rejects the subtraction of a wide \<^verbatim>\<open>int\<close>.
\<close>

definition x86_64 :: platform where
  "x86_64 = \<lparr>cast_undef = (\<lambda>x. word_of_int (- (2 ^ 31))), wide_sub = (\<lambda>k. None)\<rparr>"

section \<open>Rounding, conversion and the code range\<close>


lemma round_half_even_near: "\<bar>of_int (round_half_even x) - x\<bar> \<le> 1 / 2"
proof -
  have "of_int \<lfloor>x\<rfloor> \<le> x" "x < of_int \<lfloor>x\<rfloor> + 1" by linarith+
  then show ?thesis
    by (auto simp: round_half_even_def Let_def)
qed

lemma round_half_even_of_int [simp]: "round_half_even (of_int k) = k"
  by (simp add: round_half_even_def)


lemma round_half_even_tie:
  assumes "\<bar>of_int (round_half_even x) - x\<bar> = 1 / 2"
  shows "even (round_half_even x)"
proof -
  have b: "of_int \<lfloor>x\<rfloor> \<le> x" "x < of_int \<lfloor>x\<rfloor> + 1" by linarith+
  show ?thesis
  proof (cases "x - of_int \<lfloor>x\<rfloor> = 1 / 2")
    case True
    then show ?thesis by (simp add: round_half_even_def Let_def)
  next
    case False
    with assms b show ?thesis
      by (auto simp: round_half_even_def Let_def split: if_splits)
  qed
qed



lemma sint_of_int_fits: "fits_int32 k \<Longrightarrow> sint (word_of_int k :: 32 word) = k"
  by (simp add: fits_int32_def sint_sbintrunc' signed_take_bit_int_eq_self)

lemma fits_int32_sint: "fits_int32 (sint (c :: 32 word))"
  using sint_range_size [of c] by (simp add: fits_int32_def word_size)


lemma sint_sub_fits:
  assumes "fits_int32 (sint (c :: 32 word) - k)"
  shows "sint (c - word_of_int k) = sint c - k"
proof -
  have "c - word_of_int k = word_of_int (sint c - k)"
    by simp
  then show ?thesis using sint_of_int_fits [OF assms] by simp
qed


lemma pow2_split_real: "1 \<le> bits \<Longrightarrow> (2::real) ^ nat bits = 2 * 2 ^ nat (bits - 1)"
proof -
  assume "1 \<le> bits"
  then have "nat bits = Suc (nat (bits - 1))" by simp
  then show ?thesis by simp
qed

lemma span_pos: "1 \<le> bits \<Longrightarrow> (0::int) < 2 ^ nat bits - 1"
proof -
  assume "1 \<le> bits"
  then have "(2::int) ^ 1 \<le> 2 ^ nat bits"
    by (intro power_increasing) auto
  then show ?thesis by simp
qed

lemma span_real: "1 \<le> bits \<Longrightarrow> (0::real) < 2 ^ nat bits - 1"
proof -
  assume "1 \<le> bits"
  then have "(0::real) < of_int (2 ^ nat bits - 1)"
    using span_pos [of bits] by (simp only: of_int_0_less_iff)
  then show ?thesis by simp
qed



text \<open>With at least one bit the bounds of the code range are Python integers.\<close>

lemma min_int_val_PyInt:
  "1 \<le> bits \<Longrightarrow> min_int_val bits s = PyInt (if s then - (2 ^ nat (bits - 1)) else 0)"
  by (simp add: min_int_val_def py_pow2_def)

lemma max_int_val_PyInt:
  "1 \<le> bits \<Longrightarrow>
     max_int_val bits s = PyInt (if s then 2 ^ nat (bits - 1) - 1 else 2 ^ nat bits - 1)"
  by (simp add: max_int_val_def py_pow2_def)

lemma span_value:
  assumes "1 \<le> bits"
  shows "py_real (py_sub (max_int_val bits s) (min_int_val bits s)) = 2 ^ nat bits - 1"
  unfolding min_int_val_PyInt [OF assms] max_int_val_PyInt [OF assms]
  using pow2_split_real [OF assms] by simp



section \<open>The quantizer on a configuration with at least one bit\<close>


lemma discretize_to_bits_fits:
  assumes "discretize_scaled v bits max_val min_val s = Fin x" "fits_int32 (round_half_even x)"
  shows "discretize_to_bits p v bits max_val min_val s = word_of_int (round_half_even x)"
  using assms by (simp add: discretize_to_bits_def astype_int32_def)

lemma decode_formula:
  assumes "1 \<le> bits"
    and "lo = (if s then - (2 ^ nat (bits - 1)) else 0)"
    and "fits_int32 lo" "fits_int32 (sint c - lo)"
  shows "decode_from_bits p c bits max_val min_val s =
           Inr (Fin (of_int (sint c - lo) / (2 ^ nat bits - 1) * (max_val - min_val) + min_val))"
proof -
  have n: "(2::real) ^ nat bits - 1 \<noteq> 0" using span_real [OF assms(1)] by simp
  have sub: "sub_scalar p (PyInt lo) = Inr (\<lambda>c. of_int (sint (c - word_of_int lo)))"
    using assms(3) by (simp add: sub_scalar_def)
  have "decode_from_bits p c bits max_val min_val s =
          Inr (np_add (np_mul (np_divide (of_int (sint (c - word_of_int lo))) (2 ^ nat bits - 1))
                 (max_val - min_val)) min_val)"
    unfolding decode_from_bits_def decode_elem_def Let_def span_value [OF assms(1)]
    unfolding min_int_val_PyInt [OF assms(1)] assms(2) [symmetric] sub
    by simp
  also have "sint (c - word_of_int lo) = sint c - lo"
    using assms(4) by (rule sint_sub_fits)
  finally show ?thesis using n by (simp add: np_divide_def)
qed

















section \<open>The compressor on arrays\<close>







section \<open>Thirty-two bits on any platform\<close>

text \<open>
  Signed, the code of \<open>max_val\<close> is \<open>2 ^ 31 - 1\<close> and the \<^verbatim>\<open>int32\<close> subtraction of
  \<open>min_int = - 2 ^ 31\<close> wraps to \<open>- 1\<close>. Unsigned, the scaled value \<open>2 ^ 32 - 1\<close> of
  \<open>max_val\<close> has no \<^verbatim>\<open>int32\<close>: whatever code the conversion gives is below \<open>2 ^ 31\<close>
  and decodes to less than \<open>1 / 2 + 1 / 2 ^ 32\<close> of the range.
\<close>

lemma signed_32_bits_any_platform:
  "decode_from_bits p (discretize_to_bits p 4294967295 32 4294967295 0 True) 32 4294967295 0 True
     = Inr (Fin (- 1))"
  by (simp add: discretize_to_bits_def discretize_scaled_def decode_from_bits_def decode_elem_def
      sub_scalar_def astype_int32_def fits_int32_def round_half_even_def
      max_int_val_def min_int_val_def py_pow2_def np_divide_def)

lemma unsigned_32_bits_any_platform:
  "\<exists>d. decode_from_bits p (discretize_to_bits p 1 32 1 0 False) 32 1 0 False = Inr (Fin d)
       \<and> \<not> \<bar>d - 1\<bar> \<le> (1 - 0) / (2 * (2 ^ nat 32 - 1))"
proof -
  define c where "c = discretize_to_bits p 1 32 1 0 False"
  have f0: "fits_int32 0" by (simp add: fits_int32_def)
  have fc: "fits_int32 (sint c - 0)" using fits_int32_sint [of c] by simp
  have dec: "decode_from_bits p c 32 1 0 False =
      Inr (Fin (of_int (sint c - 0) / (2 ^ nat 32 - 1) * (1 - 0) + 0))"
    by (rule decode_formula [OF _ _ f0 fc]) simp_all
  have "sint c < 2147483648" using fits_int32_sint [of c] by (simp add: fits_int32_def)
  then have "(of_int (sint c) :: real) < 2147483648" by linarith
  then have "\<not> \<bar>of_int (sint c - 0) / (2 ^ nat 32 - 1) * (1 - 0) + 0 - (1::real)\<bar>
          \<le> (1 - 0) / (2 * (2 ^ nat 32 - 1))"
    by (simp add: field_simps abs_le_iff del: of_int_sint)
  then show ?thesis unfolding c_def [symmetric] dec by blast
qed

lemma unsigned_32_bits_max_int_any_platform:
  "sint (discretize_to_bits p 1 32 1 0 False) \<noteq> 2 ^ nat 32 - 1"
  using fits_int32_sint [of "discretize_to_bits p 1 32 1 0 False"] by (simp add: fits_int32_def)

text \<open>The definitions that evaluate the quantizer on a concrete input.\<close>

lemmas codec_defs =
  discretize_to_bits_def discretize_scaled_def decode_from_bits_def decode_elem_def
  sub_scalar_def astype_int32_def fits_int32_def round_half_even_def
  max_int_val_def min_int_val_def py_pow2_def np_divide_def x86_64_def

lemmas compressor_defs =
  NaiveCompressor_init_def Compressor_init_def NaiveCompressor_compress_def
  NaiveCompressor_decompress_def getitem_def discretize_rows_def decode_rows_def

section \<open>Claims about the quantizer\<close>




text \<open>
  Claim C3, as amended. Whenever the scaled value \<open>x\<close> is finite and its rounding fits
  in \<^verbatim>\<open>int32\<close>, the code returned by \<^verbatim>\<open>discretize_to_bits\<close> is an integer nearest to
  \<open>x\<close>, and when \<open>x\<close> lies exactly halfway between two integers it is the even one
  of the two (the rule of \<^verbatim>\<open>np.round\<close>), not the one of larger absolute value.
\<close>

theorem discretize_rounds_half_to_even:
  assumes "discretize_scaled v bits max_val min_val s = Fin x"
    and "fits_int32 (round_half_even x)"
  shows "\<bar>of_int (sint (discretize_to_bits p v bits max_val min_val s)) - x\<bar> \<le> 1 / 2
       \<and> (\<bar>of_int (sint (discretize_to_bits p v bits max_val min_val s)) - x\<bar> = 1 / 2
            \<longrightarrow> even (sint (discretize_to_bits p v bits max_val min_val s)))"
proof -
  have "sint (discretize_to_bits p v bits max_val min_val s) = round_half_even x"
    unfolding discretize_to_bits_fits [OF assms] using assms(2) by (rule sint_of_int_fits)
  then show ?thesis
    using round_half_even_near [of x] round_half_even_tie [of x] by simp
qed

theorem discretize_rounds_half_to_even_witness:
  "discretize_scaled (5 / 2) 3 7 0 False = Fin (5 / 2) \<and> fits_int32 (round_half_even (5 / 2))
   \<and> \<bar>of_int (sint (discretize_to_bits x86_64 (5 / 2) 3 7 0 False)) - (5 / 2 :: real)\<bar> \<le> 1 / 2
   \<and> \<bar>of_int (sint (discretize_to_bits x86_64 (5 / 2) 3 7 0 False)) - (5 / 2 :: real)\<bar> = 1 / 2
   \<and> even (sint (discretize_to_bits x86_64 (5 / 2) 3 7 0 False))"
proof -
  have a: "discretize_scaled (5 / 2) 3 7 0 False = Fin (5 / 2)"
    by (simp add: codec_defs)
  have b: "fits_int32 (round_half_even (5 / 2))"
    by (simp add: codec_defs)
  have c: "\<bar>of_int (sint (discretize_to_bits x86_64 (5 / 2) 3 7 0 False)) - (5 / 2 :: real)\<bar> = 1 / 2"
    by (simp add: codec_defs)
  show ?thesis
    using a b c discretize_rounds_half_to_even [OF a b, of x86_64] by simp
qed

text \<open>
  Ties away from zero would send the scaled values \<open>0.5\<close>, \<open>2.5\<close> and \<open>- 0.5\<close> to
  \<open>1\<close>, \<open>3\<close> and \<open>- 1\<close>; the code sends them to \<open>0\<close>, \<open>2\<close> and \<open>0\<close>.
\<close>

theorem tie_rounds_to_even_not_away:
  "discretize_scaled (1 / 2) 1 1 0 False = Fin (1 / 2)
   \<and> sint (discretize_to_bits x86_64 (1 / 2) 1 1 0 False) = 0
   \<and> discretize_scaled (5 / 2) 3 7 0 False = Fin (5 / 2)
   \<and> sint (discretize_to_bits x86_64 (5 / 2) 3 7 0 False) = 2
   \<and> discretize_scaled (1 / 2) 1 1 0 True = Fin (- (1 / 2))
   \<and> sint (discretize_to_bits x86_64 (1 / 2) 1 1 0 True) = 0"
  by (simp add: codec_defs)












section \<open>Claims about configurations and the compressor\<close>







text \<open>
  Claim C5, as amended. \<^verbatim>\<open>NaiveCompressor(config)\<close> succeeds for every dictionary. When
  one of the keys \<^verbatim>\<open>lengths\<close>, \<^verbatim>\<open>angles\<close>, \<^verbatim>\<open>dihedrals\<close> is missing, the error comes
  when the compressor is used: \<^verbatim>\<open>compress\<close> raises \<^verbatim>\<open>KeyError\<close> for a missing key,
  and \<^verbatim>\<open>decompress\<close> raises.
\<close>

theorem missing_key_raises_at_call:
  assumes "k \<in> {''lengths'', ''angles'', ''dihedrals''}" "config' k = None"
  shows "NaiveCompressor_init config' = Inr \<lparr>config = config'\<rparr>
       \<and> (\<exists>k'. k' \<in> {''lengths'', ''angles'', ''dihedrals''} \<and> config' k' = None
             \<and> NaiveCompressor_compress p \<lparr>config = config'\<rparr> x = Inl (KeyError k'))
       \<and> (\<exists>e. NaiveCompressor_decompress p \<lparr>config = config'\<rparr> q = Inl e)"
proof -
  have a: "NaiveCompressor_init config' = Inr \<lparr>config = config'\<rparr>"
    by (simp add: NaiveCompressor_init_def Compressor_init_def)
  have b: "\<exists>k'. k' \<in> {''lengths'', ''angles'', ''dihedrals''} \<and> config' k' = None
             \<and> NaiveCompressor_compress p \<lparr>config = config'\<rparr> x = Inl (KeyError k')"
    using assms
    by (cases x; cases "config' ''lengths''"; cases "config' ''angles''";
        cases "config' ''dihedrals''")
       (auto simp: NaiveCompressor_compress_def getitem_def)
  have c: "\<exists>e. NaiveCompressor_decompress p \<lparr>config = config'\<rparr> q = Inl e"
    using assms
    by (cases q; cases "config' ''lengths''"; cases "config' ''angles''";
        cases "config' ''dihedrals''")
       (auto simp: NaiveCompressor_decompress_def getitem_def split: sum.splits)
  show ?thesis using a b c by blast
qed

theorem missing_key_raises_at_call_witness:
  "''angles'' \<in> {''lengths'', ''angles'', ''dihedrals''}
   \<and> [''lengths'' \<mapsto> twelve_byte_length_config] ''angles'' = None
   \<and> NaiveCompressor_init [''lengths'' \<mapsto> twelve_byte_length_config]
       = Inr \<lparr>config = [''lengths'' \<mapsto> twelve_byte_length_config]\<rparr>
   \<and> (\<exists>k'. k' \<in> {''lengths'', ''angles'', ''dihedrals''}
          \<and> [''lengths'' \<mapsto> twelve_byte_length_config] k' = None
          \<and> NaiveCompressor_compress x86_64 \<lparr>config = [''lengths'' \<mapsto> twelve_byte_length_config]\<rparr>
               ([], [], []) = Inl (KeyError k'))
   \<and> (\<exists>e. NaiveCompressor_decompress x86_64
              \<lparr>config = [''lengths'' \<mapsto> twelve_byte_length_config]\<rparr> ([], [], []) = Inl e)"
  using missing_key_raises_at_call
    [of "''angles''" "[''lengths'' \<mapsto> twelve_byte_length_config]" x86_64 "([], [], [])" "([], [], [])"]
  by simp

text \<open>The empty dictionary is accepted at construction; \<^verbatim>\<open>compress\<close> then raises.\<close>

theorem construction_accepts_empty_config:
  "NaiveCompressor_init Map.empty = Inr \<lparr>config = Map.empty\<rparr>
   \<and> NaiveCompressor_compress x86_64 \<lparr>config = Map.empty\<rparr> ([], [], [])
       = Inl (KeyError ''lengths'')"
  by (simp add: compressor_defs)




end
